theory Spec2Isabelle
  imports Main "HOL-Library.Word"
begin

unbundle bit_operations_syntax

section \<open>The currency converter backend (server.js)\<close>

text \<open>
  The server is one Express application with two routes, a fall-through 404 handler and a
  global error handler. A handler is modelled by the list of effects it performs, in
  order: console lines, outbound \<open>fetch\<close> calls and calls of \<open>res.status(..).json(..)\<close>.
  Everything a handler reads from outside (the process environment, the clock, what the
  upstream does with a request) is a field of the record \<open>world\<close>.
\<close>

subsection \<open>JavaScript values\<close>

text \<open>
  A JavaScript string is a sequence of UTF-16 code units, and \<open>.length\<close> counts them.
  \<open>js\<close> gives the string of an ASCII literal of the source, unit by unit.
\<close>

type_synonym jsstring = "16 word list"

definition unit_of :: "char \<Rightarrow> 16 word" where
  "unit_of c = word_of_nat (of_char c)"

definition js :: "string \<Rightarrow> jsstring" where
  "js s = map unit_of s"

text \<open>
  A number is an IEEE-754 double, kept as its 64 bits. A value that may be \<open>undefined\<close>
  is a \<open>json option\<close>, with \<open>None\<close> for \<open>undefined\<close>. An object is the list of its own
  properties, each name once.
\<close>

type_synonym double = "64 word"

datatype json =
    JNull
  | JBool bool
  | JNum double
  | JStr jsstring
  | JArr "json list"
  | JObj "(jsstring \<times> json) list"

text \<open>A double is falsy when it is +0, -0 or a NaN.\<close>

definition double_truthy :: "double \<Rightarrow> bool" where
  "double_truthy d =
     (let m = d AND 0x7FFFFFFFFFFFFFFF in m \<noteq> 0 \<and> m \<le> 0x7FF0000000000000)"

fun truthy :: "json option \<Rightarrow> bool" where
  "truthy None = False"
| "truthy (Some JNull) = False"
| "truthy (Some (JBool b)) = b"
| "truthy (Some (JNum d)) = double_truthy d"
| "truthy (Some (JStr s)) = (s \<noteq> [])"
| "truthy (Some (JArr xs)) = True"
| "truthy (Some (JObj kvs)) = True"

fun typeof :: "json option \<Rightarrow> jsstring" where
  "typeof None = js ''undefined''"
| "typeof (Some JNull) = js ''object''"
| "typeof (Some (JBool b)) = js ''boolean''"
| "typeof (Some (JNum d)) = js ''number''"
| "typeof (Some (JStr s)) = js ''string''"
| "typeof (Some (JArr xs)) = js ''object''"
| "typeof (Some (JObj kvs)) = js ''object''"

text \<open>
  \<open>data.name\<close> and \<open>data['name']\<close> for a \<open>data\<close> that is not \<open>null\<close>, at the five names
  the handler reads (\<open>result\<close>, \<open>error-type\<close>, \<open>rates\<close>, \<open>base_code\<close>,
  \<open>time_last_update_utc\<close>): only an object can have them. Reading a property of
  \<open>null\<close> throws, which the handler's model treats before it calls \<open>get_prop\<close>.
\<close>

fun get_prop :: "json \<Rightarrow> jsstring \<Rightarrow> json option" where
  "get_prop (JObj kvs) k = map_of kvs k"
| "get_prop v k = None"

text \<open>\<open>a || b\<close> with a right operand that is defined.\<close>

fun js_or :: "json option \<Rightarrow> json \<Rightarrow> json" where
  "js_or None b = b"
| "js_or (Some a) b = (if truthy (Some a) then a else b)"

subsection \<open>Errors, the upstream and the world\<close>

datatype js_error = JsError (message: jsstring)

record fetch_request =
  url :: jsstring
  http_method :: jsstring
  headers :: "(jsstring \<times> jsstring) list"

text \<open>
  The \<open>Response\<close> of node-fetch as far as the handler uses it. \<open>text_result\<close> and
  \<open>json_result\<close> are what \<open>await response.text()\<close> and \<open>await response.json()\<close> give:
  \<open>Inl\<close> is a rejection (the body cannot be read, or it is not JSON).
\<close>

record upstream_response =
  status :: nat
  statusText :: jsstring
  text_result :: "js_error + jsstring"
  json_result :: "js_error + json"

text \<open>\<open>response.ok\<close> of node-fetch: the status is in the range 200 to 299.\<close>

definition ok :: "upstream_response \<Rightarrow> bool" where
  "ok r = (200 \<le> status r \<and> status r < 300)"

datatype fetch_outcome = Rejects js_error | Resolves upstream_response

text \<open>
  \<open>EXCHANGE_RATE_API_KEY\<close> and \<open>PORT\<close> are the entries of \<open>process.env\<close> (\<open>None\<close> when
  unset), \<open>upstream\<close> is what \<open>await fetch(..)\<close> gives for a request, \<open>now_iso\<close> is the
  value of \<open>new Date().toISOString()\<close>, and \<open>null_read_error\<close> is the TypeError the
  engine throws when a property of \<open>null\<close> is read.
\<close>

record world =
  EXCHANGE_RATE_API_KEY :: "jsstring option"
  PORT :: "jsstring option"
  upstream :: "fetch_request \<Rightarrow> fetch_outcome"
  now_iso :: jsstring
  null_read_error :: js_error

subsection \<open>Effects\<close>

text \<open>
  A console line is the list of its pieces: literal text, and the numbers, values and
  errors that \<open>console.log\<close> formats.
\<close>

datatype stream = Stdout | Stderr

datatype part = Lit jsstring | Num nat | Val "json option" | Err js_error

datatype event =
    Console stream "part list"
  | Fetch fetch_request
  | Send nat json

fun fetches :: "event list \<Rightarrow> fetch_request list" where
  "fetches [] = []"
| "fetches (Fetch q # es) = q # fetches es"
| "fetches (e # es) = fetches es"

fun responses :: "event list \<Rightarrow> (nat \<times> json) list" where
  "responses [] = []"
| "responses (Send s b # es) = (s, b) # responses es"
| "responses (e # es) = responses es"

fun is_console :: "event \<Rightarrow> bool" where
  "is_console (Console s ps) = True"
| "is_console e = False"

text \<open>The body \<open>{ success: false, error: e }\<close>.\<close>

definition error_body :: "json \<Rightarrow> json" where
  "error_body e = JObj [(js ''success'', JBool False), (js ''error'', e)]"

subsection \<open>GET /api/rates/:baseCurrency\<close>

text \<open>
  The test of line 48. The length is read only once \<open>typeof\<close> has said \<open>string\<close>.
\<close>

definition invalid_base :: "json option \<Rightarrow> bool" where
  "invalid_base v =
     (\<not> truthy v \<or> typeof v \<noteq> js ''string'' \<or>
      (case v of Some (JStr s) \<Rightarrow> length s \<noteq> 3 | _ \<Rightarrow> True))"

fun str_of :: "json option \<Rightarrow> jsstring" where
  "str_of (Some (JStr s)) = s"
| "str_of v = []"

definition api_request :: "jsstring \<Rightarrow> fetch_request" where
  "api_request baseCurrency =
     \<lparr> url = js ''https://open.er-api.com/v6/latest/'' @ baseCurrency,
       http_method = js ''GET'',
       headers = [(js ''Accept'', js ''application/json'')] \<rparr>"

text \<open>The \<open>catch\<close> block of lines 128 to 135.\<close>

definition catch_block :: "js_error \<Rightarrow> event list" where
  "catch_block e =
     [Console Stderr [Lit (js ''Error in /api/rates endpoint:''), Err e],
      Send 500 (error_body (JStr (js ''Internal server error: '' @ message e)))]"

text \<open>Lines 111 to 118: the answer when \<open>data.rates\<close> is falsy.\<close>

definition rates_not_found :: "event list" where
  "rates_not_found =
     [Console Stderr [Lit (js ''Invalid API response: rates not found'')],
      Send 500 (error_body (JStr (js ''Invalid response from exchange rate API'')))]"

text \<open>Lines 103 to 126, for a parsed body that is not \<open>null\<close>.\<close>

definition reshape :: "world \<Rightarrow> jsstring \<Rightarrow> json \<Rightarrow> event list" where
  "reshape w baseCurrency data =
     (if get_prop data (js ''result'') = Some (JStr (js ''error'')) then
        [Console Stderr [Lit (js ''API returned error:''), Val (get_prop data (js ''error-type''))],
         Send 400 (error_body (js_or (get_prop data (js ''error-type'')) (JStr (js ''Unknown API error''))))]
      else
        (case get_prop data (js ''rates'') of
           None \<Rightarrow> rates_not_found
         | Some rates \<Rightarrow>
             if \<not> truthy (Some rates) then rates_not_found
             else
               [Send 200 (JObj
                  [(js ''success'', JBool True),
                   (js ''base'', js_or (get_prop data (js ''base_code'')) (JStr baseCurrency)),
                   (js ''date'',
                      js_or (get_prop data (js ''time_last_update_utc'')) (JStr (now_iso w))),
                   (js ''rates'', rates)])]))"

text \<open>Lines 89 to 126: what the handler does with the upstream's response.\<close>

definition on_response :: "world \<Rightarrow> jsstring \<Rightarrow> upstream_response \<Rightarrow> event list" where
  "on_response w baseCurrency r =
     (if \<not> ok r then
        (case text_result r of
           Inl e \<Rightarrow> catch_block e
         | Inr errorText \<Rightarrow>
             [Console Stderr [Lit (js ''API Error: ''), Num (status r), Lit (js '' - ''), Lit errorText],
              Send (status r)
                (error_body (JStr (js ''Failed to fetch exchange rates: '' @ statusText r)))])
      else
        (case json_result r of
           Inl e \<Rightarrow> catch_block e
         | Inr JNull \<Rightarrow> catch_block (null_read_error w)
         | Inr data \<Rightarrow> reshape w baseCurrency data))"

text \<open>Lines 55 to 126: the handler once the code has passed the test of line 48.\<close>

definition after_validation :: "world \<Rightarrow> jsstring \<Rightarrow> event list" where
  "after_validation w baseCurrency =
     (if \<not> truthy (map_option JStr (EXCHANGE_RATE_API_KEY w)) then
        [Console Stderr [Lit (js ''API key not found in environment variables'')],
         Send 500 (error_body (JStr (js ''Server configuration error: API key not set'')))]
      else
        Console Stdout [Lit (js ''Fetching exchange rates for base currency: ''), Lit baseCurrency]
        # Fetch (api_request baseCurrency)
        # (case upstream w (api_request baseCurrency) of
             Rejects e \<Rightarrow> catch_block e
           | Resolves r \<Rightarrow> on_response w baseCurrency r))"

definition invalid_base_message :: jsstring where
  "invalid_base_message =
     (js ''Invalid base currency code. Must be a 3-letter code (e.g., USD, EUR)'')"

definition rates_handler :: "world \<Rightarrow> json option \<Rightarrow> event list" where
  "rates_handler w baseCurrency =
     (if invalid_base baseCurrency then
        [Send 400 (error_body (JStr invalid_base_message))]
      else after_validation w (str_of baseCurrency))"

subsection \<open>GET /api/health, the 404 handler, the error handler\<close>

definition health_handler :: "world \<Rightarrow> event list" where
  "health_handler w =
     [Send 200 (JObj
        [(js ''success'', JBool True),
         (js ''message'', JStr (js ''Currency converter API is running'')),
         (js ''timestamp'', JStr (now_iso w))])]"

definition not_found_handler :: "event list" where
  "not_found_handler = [Send 404 (error_body (JStr (js ''Endpoint not found'')))]"

definition error_handler :: "js_error \<Rightarrow> event list" where
  "error_handler err =
     [Console Stderr [Lit (js ''Unhandled error:''), Err err],
      Send 500 (error_body (JStr (js ''Internal server error'')))]"

text \<open>
  A request as the application's own handlers see it, after the middleware of lines 24
  to 30 has passed it on: it matched the rates route with a parameter, or the health
  route, or no route; or an earlier layer handed an error to \<open>next\<close>.
\<close>

datatype routed =
    ToRates "json option"
  | ToHealth
  | Unmatched
  | Errored js_error

fun app :: "world \<Rightarrow> routed \<Rightarrow> event list" where
  "app w (ToRates baseCurrency) = rates_handler w baseCurrency"
| "app w ToHealth = health_handler w"
| "app w Unmatched = not_found_handler"
| "app w (Errored err) = error_handler err"

subsection \<open>The callback of app.listen\<close>

text \<open>\<open>process.env.PORT || 3000\<close>, as a piece of a console line.\<close>

definition port_part :: "world \<Rightarrow> part" where
  "port_part w =
     (case PORT w of
        None \<Rightarrow> Num 3000
      | Some p \<Rightarrow> if p = [] then Num 3000 else Lit p)"

definition rule_line :: event where
  "rule_line = Console Stdout [Lit (js ''==========================================='')]"

definition listen_callback :: "world \<Rightarrow> event list" where
  "listen_callback w =
     [rule_line,
      Console Stdout [Lit (js ''Currency Converter Backend Server'')],
      rule_line,
      Console Stdout [Lit (js ''Server running on http://localhost:''), port_part w],
      Console Stdout [Lit (js ''API endpoint: http://localhost:''), port_part w,
                      Lit (js ''/api/rates/:baseCurrency'')],
      Console Stdout [Lit (js ''Health check: http://localhost:''), port_part w,
                      Lit (js ''/api/health'')]]
     @ (if truthy (map_option JStr (EXCHANGE_RATE_API_KEY w)) then
          [Console Stdout [Lit (0x2713 # js '' API key is configured'')]]
        else
          [Console Stdout
             [Lit (0x26A0 # js '' WARNING: API key not found in .env file'')],
           Console Stdout
             [Lit (js ''  The API may work without a key, or you may need to set ''
                   @ js ''EXCHANGE_RATE_API_KEY'')]])
     @ [rule_line]"

subsection \<open>Requests in sequence\<close>

text \<open>
  The process answers one request after the other with the same handlers; no handler
  assigns to a variable outside its own scope, so nothing but the world is passed on.
\<close>

fun serve :: "world \<Rightarrow> routed list \<Rightarrow> event list" where
  "serve w [] = []"
| "serve w (rq # rqs) = app w rq @ serve w rqs"

text \<open>A response body with its \<open>date\<close> field taken out.\<close>

fun without_date :: "json \<Rightarrow> json" where
  "without_date (JObj kvs) = JObj (filter (\<lambda>kv. fst kv \<noteq> js ''date'') kvs)"
| "without_date v = v"

subsection \<open>Example worlds\<close>

text \<open>The payload \<open>{base_code: "USD", rates: {"EUR": 0.9}}\<close>; the bits are those of 0.9.\<close>

definition usd_payload :: json where
  "usd_payload =
     JObj [(js ''base_code'', JStr (js ''USD'')),
           (js ''rates'', JObj [(js ''EUR'', JNum 0x3FECCCCCCCCCCCCD)])]"

text \<open>The payload \<open>{result: "error", "error-type": "unknown-code"}\<close>.\<close>

definition unknown_code_payload :: json where
  "unknown_code_payload =
     JObj [(js ''result'', JStr (js ''error'')), (js ''error-type'', JStr (js ''unknown-code''))]"

text \<open>The payload \<open>{result: "error", "error-type": 42}\<close>; the bits are those of 42.\<close>

definition numeric_error_payload :: json where
  "numeric_error_payload =
     JObj [(js ''result'', JStr (js ''error'')), (js ''error-type'', JNum 0x4045000000000000)]"

text \<open>The payload \<open>{base_code: "USD"}\<close>, with no rates.\<close>

definition no_rates_payload :: json where
  "no_rates_payload = JObj [(js ''base_code'', JStr (js ''USD''))]"

text \<open>An HTTP 200 reply with a parsed body; its text is not read on that path.\<close>

definition reply_200 :: "json \<Rightarrow> upstream_response" where
  "reply_200 data =
     \<lparr> status = 200, statusText = js ''OK'', text_result = Inr [], json_result = Inr data \<rparr>"

text \<open>An HTTP 404 reply whose body can be read.\<close>

definition reply_404 :: upstream_response where
  "reply_404 =
     \<lparr> status = 404, statusText = js ''Not Found'', text_result = Inr (js ''no such code''),
       json_result = Inl (JsError (js ''Unexpected token'')) \<rparr>"

text \<open>An HTTP 404 reply whose connection breaks while the body is read.\<close>

definition broken_404 :: upstream_response where
  "broken_404 =
     \<lparr> status = 404, statusText = js ''Not Found'',
       text_result = Inl (JsError (js ''Premature close'')),
       json_result = Inl (JsError (js ''Premature close'')) \<rparr>"

text \<open>
  A world with the given key in the environment and an upstream that answers every
  request in the given way.
\<close>

definition world_with :: "jsstring option \<Rightarrow> fetch_outcome \<Rightarrow> world" where
  "world_with key out =
     \<lparr> EXCHANGE_RATE_API_KEY = key, PORT = None, upstream = (\<lambda>q. out),
       now_iso = js ''2024-01-15T12:00:00.000Z'',
       null_read_error = JsError (js ''Cannot read properties of null'') \<rparr>"

section \<open>Properties\<close>

subsection \<open>Facts about strings\<close>

lemma unat_unit_of: "unat (unit_of c) = of_char c"
proof -
  have "(of_char c :: nat) mod 256 = of_char c" by simp
  moreover have "(of_char c :: nat) mod 256 < 256" by simp
  ultimately have "(of_char c :: nat) < 256" by simp
  then have "(of_char c :: nat) < 65536" by linarith
  then show ?thesis by (simp add: unit_of_def unat_of_nat)
qed

lemma unit_of_inject: "unit_of a = unit_of b \<longleftrightarrow> a = b"
proof
  assume "unit_of a = unit_of b"
  then have "unat (unit_of a) = unat (unit_of b)" by simp
  then have "(of_char a :: nat) = of_char b" by (simp only: unat_unit_of)
  then show "a = b" by simp
qed simp

lemma js_inject [simp]: "js a = js b \<longleftrightarrow> a = b"
  unfolding js_def
  by (rule inj_map_eq_map) (simp add: inj_on_def unit_of_inject)

lemma js_append [simp]: "js a @ js b = js (a @ b)"
  by (simp add: js_def)

lemma length_js [simp]: "length (js s) = length s"
  by (simp add: js_def)

lemma js_Nil [simp]: "js s = [] \<longleftrightarrow> s = []" "[] = js s \<longleftrightarrow> s = []"
  by (auto simp: js_def)

subsection \<open>Facts about the handlers\<close>

lemma truthy_key_iff: "truthy (map_option JStr k) = (\<exists>s. k = Some s \<and> s \<noteq> [])"
  by (cases k) auto

lemma invalid_base_iff: "invalid_base v = (\<not> (\<exists>s. v = Some (JStr s) \<and> length s = 3))"
  by (cases v rule: truthy.cases) (auto simp: invalid_base_def)

lemma rates_handler_valid:
  "length s = 3 \<Longrightarrow> rates_handler w (Some (JStr s)) = after_validation w s"
  by (auto simp: rates_handler_def invalid_base_def)

lemma after_validation_key:
  "truthy (map_option JStr (EXCHANGE_RATE_API_KEY w)) \<Longrightarrow>
   after_validation w s =
     Console Stdout [Lit (js ''Fetching exchange rates for base currency: ''), Lit s]
     # Fetch (api_request s)
     # (case upstream w (api_request s) of
          Rejects e \<Rightarrow> catch_block e
        | Resolves r \<Rightarrow> on_response w s r)"
  by (simp add: after_validation_def)

lemma fetches_catch_block [simp]: "fetches (catch_block e) = []"
  by (simp add: catch_block_def)

lemma fetches_reshape [simp]: "fetches (reshape w s d) = []"
  by (simp add: reshape_def rates_not_found_def split: option.splits)

lemma fetches_on_response [simp]: "fetches (on_response w s r) = []"
  by (simp add: on_response_def split: sum.splits json.splits)

lemma responses_catch_block [simp]:
  "responses (catch_block e) =
     [(500, error_body (JStr (js ''Internal server error: '' @ message e)))]"
  by (simp add: catch_block_def)

lemma ok_200: "status r = 200 \<Longrightarrow> ok r"
  by (simp add: ok_def)

lemma rates_with_reply:
  assumes "length s = 3"
    and "truthy (map_option JStr (EXCHANGE_RATE_API_KEY w))"
    and "upstream w (api_request s) = Resolves r"
  shows "rates_handler w (Some (JStr s)) =
     Console Stdout [Lit (js ''Fetching exchange rates for base currency: ''), Lit s]
     # Fetch (api_request s) # on_response w s r"
  using assms by (simp add: rates_handler_valid after_validation_key)

lemma responses_with_reply:
  assumes "length s = 3"
    and "truthy (map_option JStr (EXCHANGE_RATE_API_KEY w))"
    and "upstream w (api_request s) = Resolves r"
  shows "responses (rates_handler w (Some (JStr s))) = responses (on_response w s r)"
  by (simp add: rates_with_reply [OF assms])

lemma on_response_ok:
  assumes "ok r" and "json_result r = Inr data" and "data \<noteq> JNull"
  shows "on_response w s r = reshape w s data"
  using assms by (cases data) (simp_all add: on_response_def)

lemma rates_without_key:
  assumes "length s = 3"
    and "\<not> truthy (map_option JStr (EXCHANGE_RATE_API_KEY w))"
  shows "rates_handler w (Some (JStr s)) =
     [Console Stderr [Lit (js ''API key not found in environment variables'')],
      Send 500 (error_body (JStr (js ''Server configuration error: API key not set'')))]"
  using assms by (simp add: rates_handler_valid after_validation_def)

lemma list_all_console_listen: "list_all is_console (listen_callback w)"
  by (simp add: listen_callback_def rule_line_def)

subsection \<open>Validation of the base currency\<close>

text \<open>
  C2. A \<open>baseCurrency\<close> that is not a string of exactly 3 characters is answered with
  HTTP 400 and \<open>{success: false, error: "Invalid base currency code. Must be a 3-letter
  code (e.g., USD, EUR)"}\<close>, and no upstream call is made. A string of 3 characters passes
  the test: the handler goes on with the rest of its body, and with a key configured it
  calls the upstream for that code. A character is a UTF-16 code unit, as \<open>.length\<close>
  counts.
\<close>

theorem rates_validation:
  "(\<not> (\<exists>s. baseCurrency = Some (JStr s) \<and> length s = 3) \<longrightarrow>
      rates_handler w baseCurrency = [Send 400 (error_body (JStr invalid_base_message))] \<and>
      fetches (rates_handler w baseCurrency) = []) \<and>
   (length s = 3 \<longrightarrow>
      rates_handler w (Some (JStr s)) = after_validation w s \<and>
      (truthy (map_option JStr (EXCHANGE_RATE_API_KEY w)) \<longrightarrow>
         fetches (rates_handler w (Some (JStr s))) = [api_request s]))"
proof (intro conjI impI)
  assume bad: "\<not> (\<exists>s. baseCurrency = Some (JStr s) \<and> length s = 3)"
  then have "invalid_base baseCurrency" by (simp add: invalid_base_iff)
  then show "rates_handler w baseCurrency = [Send 400 (error_body (JStr invalid_base_message))]"
    by (simp add: rates_handler_def)
  then show "fetches (rates_handler w baseCurrency) = []" by simp
next
  assume len: "length s = 3"
  then show "rates_handler w (Some (JStr s)) = after_validation w s"
    by (rule rates_handler_valid)
  assume "truthy (map_option JStr (EXCHANGE_RATE_API_KEY w))"
  then show "fetches (rates_handler w (Some (JStr s))) = [api_request s]"
    by (simp add: rates_handler_valid [OF len] after_validation_key
        split: fetch_outcome.splits)
qed

text \<open>
  Two ASCII codes, \<open>US\<close> and \<open>USD\<close>, and two that are not: the euro sign, one code unit
  (U+20AC), is refused, and three letters e with an acute accent (U+00E9), three code
  units, pass.
\<close>

theorem rates_validation_witness:
  "rates_handler (world_with (Some (js ''k'')) (Resolves (reply_200 usd_payload)))
     (Some (JStr (js ''US'')))
     = [Send 400 (error_body (JStr invalid_base_message))] \<and>
   fetches (rates_handler (world_with (Some (js ''k'')) (Resolves (reply_200 usd_payload)))
     (Some (JStr (js ''USD'')))) = [api_request (js ''USD'')] \<and>
   rates_handler (world_with (Some (js ''k'')) (Resolves (reply_200 usd_payload)))
     (Some (JStr [0x20AC]))
     = [Send 400 (error_body (JStr invalid_base_message))] \<and>
   fetches (rates_handler (world_with (Some (js ''k'')) (Resolves (reply_200 usd_payload)))
     (Some (JStr [0xE9, 0xE9, 0xE9]))) = [api_request [0xE9, 0xE9, 0xE9]]"
proof -
  let ?w = "world_with (Some (js ''k'')) (Resolves (reply_200 usd_payload))"
  have h1: "\<not> (\<exists>s. Some (JStr (js ''US'')) = Some (JStr s) \<and> length s = 3)" by simp
  have h2: "length (js ''USD'') = 3" by simp
  have h3: "truthy (map_option JStr (EXCHANGE_RATE_API_KEY ?w))"
    by (simp add: world_with_def)
  have h4: "\<not> (\<exists>s. Some (JStr [0x20AC]) = Some (JStr s) \<and> length s = 3)" by simp
  have h5: "length [0xE9, 0xE9, 0xE9 :: 16 word] = 3" by simp
  have ascii:
    "rates_handler ?w (Some (JStr (js ''US''))) =
       [Send 400 (error_body (JStr invalid_base_message))] \<and>
     fetches (rates_handler ?w (Some (JStr (js ''USD'')))) = [api_request (js ''USD'')]"
    using rates_validation [of "Some (JStr (js ''US''))" ?w "js ''USD''"] h1 h2 h3 by blast
  have other:
    "rates_handler ?w (Some (JStr [0x20AC])) =
       [Send 400 (error_body (JStr invalid_base_message))] \<and>
     fetches (rates_handler ?w (Some (JStr [0xE9, 0xE9, 0xE9]))) =
       [api_request [0xE9, 0xE9, 0xE9]]"
    using rates_validation [of "Some (JStr [0x20AC])" ?w "[0xE9, 0xE9, 0xE9]"] h4 h5 h3
    by blast
  from ascii other show ?thesis by blast
qed

subsection \<open>The successful answer\<close>

text \<open>
  C1 (as amended). For every configuration whose API key is set and not empty, and every
  3-character code: when the upstream answers with a success status (HTTP 200 in
  particular) and a parsed payload whose \<open>result\<close> is not \<open>"error"\<close> and whose \<open>rates\<close> is
  truthy, the handler sends HTTP 200 with \<open>{success: true, base, date, rates}\<close>, where
  \<open>base\<close> is the upstream's \<open>base_code\<close> or else the input code, \<open>date\<close> is the upstream's
  \<open>time_last_update_utc\<close> or else the current time, and \<open>rates\<close> is the upstream's value
  unchanged; \<open>date\<close> is never empty. The claim as written quantifies over every
  configuration, and fails where the key is not set.
\<close>

theorem rates_success:
  assumes valid: "length s = 3"
    and key: "EXCHANGE_RATE_API_KEY w = Some k" "k \<noteq> []"
    and reply: "upstream w (api_request s) = Resolves r" "ok r" "json_result r = Inr data"
    and no_error: "get_prop data (js ''result'') \<noteq> Some (JStr (js ''error''))"
    and rates: "get_prop data (js ''rates'') = Some rates" "truthy (Some rates)"
    and clock: "now_iso w \<noteq> []"
  shows "responses (rates_handler w (Some (JStr s))) =
           [(200, JObj
              [(js ''success'', JBool True),
               (js ''base'', js_or (get_prop data (js ''base_code'')) (JStr s)),
               (js ''date'', js_or (get_prop data (js ''time_last_update_utc'')) (JStr (now_iso w))),
               (js ''rates'', rates)])] \<and>
         truthy (Some (js_or (get_prop data (js ''time_last_update_utc'')) (JStr (now_iso w))))"
proof -
  have k: "truthy (map_option JStr (EXCHANGE_RATE_API_KEY w))"
    using key by simp
  have "data \<noteq> JNull" using rates by auto
  then have "on_response w s r = reshape w s data"
    using reply by (simp add: on_response_ok)
  then have "responses (rates_handler w (Some (JStr s))) = responses (reshape w s data)"
    using responses_with_reply [OF valid k reply(1)] by simp
  moreover have "truthy (Some (js_or (get_prop data (js ''time_last_update_utc'')) (JStr (now_iso w))))"
    using clock by (cases "get_prop data (js ''time_last_update_utc'')") simp_all
  ultimately show ?thesis
    using no_error rates by (simp add: reshape_def)
qed

text \<open>
  The example of the specification: the upstream returns HTTP 200 with
  \<open>{base_code: "USD", rates: {"EUR": 0.9}}\<close> and the key is set.
\<close>

theorem rates_success_witness:
  "responses (rates_handler (world_with (Some (js ''k'')) (Resolves (reply_200 usd_payload)))
                (Some (JStr (js ''USD'')))) =
     [(200, JObj
        [(js ''success'', JBool True),
         (js ''base'', JStr (js ''USD'')),
         (js ''date'', JStr (js ''2024-01-15T12:00:00.000Z'')),
         (js ''rates'', JObj [(js ''EUR'', JNum 0x3FECCCCCCCCCCCCD)])])]"
proof -
  let ?w = "world_with (Some (js ''k'')) (Resolves (reply_200 usd_payload))"
  have "responses (rates_handler ?w (Some (JStr (js ''USD'')))) =
           [(200, JObj
              [(js ''success'', JBool True),
               (js ''base'', js_or (get_prop usd_payload (js ''base_code'')) (JStr (js ''USD''))),
               (js ''date'', js_or (get_prop usd_payload (js ''time_last_update_utc'')) (JStr (now_iso ?w))),
               (js ''rates'', JObj [(js ''EUR'', JNum 0x3FECCCCCCCCCCCCD)])])] \<and>
         truthy (Some (js_or (get_prop usd_payload (js ''time_last_update_utc'')) (JStr (now_iso ?w))))"
    by (rule rates_success [where k = "js ''k''" and r = "reply_200 usd_payload"])
       (simp_all add: world_with_def reply_200_def usd_payload_def ok_def)
  then show ?thesis
    by (simp add: world_with_def usd_payload_def)
qed

text \<open>
  The same upstream and the same request in a configuration without the key: the answer
  is HTTP 500, not the successful one.
\<close>

theorem rates_success_counterexample:
  "upstream (world_with None (Resolves (reply_200 usd_payload))) (api_request (js ''USD''))
     = Resolves (reply_200 usd_payload) \<and>
   status (reply_200 usd_payload) = 200 \<and>
   json_result (reply_200 usd_payload) = Inr usd_payload \<and>
   responses (rates_handler (world_with None (Resolves (reply_200 usd_payload)))
                (Some (JStr (js ''USD'')))) =
     [(500, error_body (JStr (js ''Server configuration error: API key not set'')))]"
  by (simp add: world_with_def reply_200_def rates_without_key)

subsection \<open>The API key\<close>

text \<open>
  C3 (as amended). When the API key is absent from the configuration (unset or empty),
  every rates request with a 3-character code fails with HTTP 500 and
  \<open>{success: false, error: "Server configuration error: API key not set"}\<close> before any
  upstream call, whether or not the upstream needs a key. The absence is not a startup
  failure: the callback of \<open>app.listen\<close> only writes console lines, among them the
  warning, and the health route still answers 200. The claim as written says that with
  the reference upstream the absence is not a per-request failure; the handler of this
  repository calls only the reference upstream and fails every request.
\<close>

theorem missing_key:
  assumes absent: "EXCHANGE_RATE_API_KEY w = None \<or> EXCHANGE_RATE_API_KEY w = Some []"
    and valid: "length s = 3"
  shows "rates_handler w (Some (JStr s)) =
           [Console Stderr [Lit (js ''API key not found in environment variables'')],
            Send 500 (error_body (JStr (js ''Server configuration error: API key not set'')))] \<and>
         fetches (rates_handler w (Some (JStr s))) = [] \<and>
         list_all is_console (listen_callback w) \<and>
         Console Stdout
           [Lit (0x26A0 # js '' WARNING: API key not found in .env file'')]
           \<in> set (listen_callback w) \<and>
         responses (app w ToHealth) =
           [(200, JObj [(js ''success'', JBool True),
                        (js ''message'', JStr (js ''Currency converter API is running'')),
                        (js ''timestamp'', JStr (now_iso w))])]"
proof -
  have k: "\<not> truthy (map_option JStr (EXCHANGE_RATE_API_KEY w))"
    using absent by auto
  have "Console Stdout
           [Lit (0x26A0 # js '' WARNING: API key not found in .env file'')]
           \<in> set (listen_callback w)"
    using k by (simp add: listen_callback_def)
  then show ?thesis
    by (simp add: rates_without_key [OF valid k] list_all_console_listen health_handler_def)
qed

text \<open>A configuration without the key, asked for EUR and for its health.\<close>

theorem missing_key_witness:
  "rates_handler (world_with None (Resolves (reply_200 usd_payload))) (Some (JStr (js ''EUR''))) =
     [Console Stderr [Lit (js ''API key not found in environment variables'')],
      Send 500 (error_body (JStr (js ''Server configuration error: API key not set'')))] \<and>
   responses (app (world_with None (Resolves (reply_200 usd_payload))) ToHealth) =
     [(200, JObj [(js ''success'', JBool True),
                  (js ''message'', JStr (js ''Currency converter API is running'')),
                  (js ''timestamp'', JStr (js ''2024-01-15T12:00:00.000Z''))])]"
proof -
  let ?w = "world_with None (Resolves (reply_200 usd_payload))"
  have a: "EXCHANGE_RATE_API_KEY ?w = None \<or> EXCHANGE_RATE_API_KEY ?w = Some []"
    by (simp add: world_with_def)
  have l: "length (js ''EUR'') = 3" by simp
  have n: "now_iso ?w = js ''2024-01-15T12:00:00.000Z''" by (simp add: world_with_def)
  show ?thesis
    using missing_key [OF a l] n by simp
qed

text \<open>
  With the reference upstream ready to answer 200, the request for EUR fails with HTTP
  500 and no upstream call when the key is absent, and succeeds when it is set.
\<close>

theorem missing_key_counterexample:
  "fetches (app (world_with None (Resolves (reply_200 usd_payload))) (ToRates (Some (JStr (js ''EUR'')))))
     = [] \<and>
   responses (app (world_with None (Resolves (reply_200 usd_payload))) (ToRates (Some (JStr (js ''EUR'')))))
     = [(500, error_body (JStr (js ''Server configuration error: API key not set'')))] \<and>
   map fst (responses (app (world_with (Some (js ''k'')) (Resolves (reply_200 usd_payload)))
                         (ToRates (Some (JStr (js ''EUR''))))))
     = [200]"
proof -
  let ?w = "world_with (Some (js ''k'')) (Resolves (reply_200 usd_payload))"
  have "responses (rates_handler ?w (Some (JStr (js ''EUR'')))) = responses (on_response ?w (js ''EUR'') (reply_200 usd_payload))"
    by (rule responses_with_reply) (simp_all add: world_with_def)
  also have "\<dots> = responses (reshape ?w (js ''EUR'') usd_payload)"
    by (simp add: on_response_def reply_200_def ok_def usd_payload_def)
  finally have "map fst (responses (rates_handler ?w (Some (JStr (js ''EUR''))))) = [200]"
    by (simp add: reshape_def usd_payload_def)
  then show ?thesis
    by (simp add: world_with_def rates_without_key)
qed

subsection \<open>Upstream failures\<close>

text \<open>
  C4 (as amended). For every upstream reply with a non-success HTTP status whose body can
  be read, the handler answers with the upstream's status code and
  \<open>{success: false, error: "Failed to fetch exchange rates: " + statusText}\<close>. When reading
  the body of such a reply fails, the answer is HTTP 500 with
  \<open>"Internal server error: " + message\<close> instead. The claim as written covers every
  non-success reply.
\<close>

theorem upstream_error_status:
  assumes valid: "length s = 3"
    and key: "EXCHANGE_RATE_API_KEY w = Some k" "k \<noteq> []"
    and reply: "upstream w (api_request s) = Resolves r" "\<not> ok r"
  shows "(\<forall>body. text_result r = Inr body \<longrightarrow>
            responses (rates_handler w (Some (JStr s))) =
              [(status r,
                error_body (JStr (js ''Failed to fetch exchange rates: '' @ statusText r)))]) \<and>
         (\<forall>e. text_result r = Inl e \<longrightarrow>
            responses (rates_handler w (Some (JStr s))) =
              [(500, error_body (JStr (js ''Internal server error: '' @ message e)))])"
proof -
  have k: "truthy (map_option JStr (EXCHANGE_RATE_API_KEY w))"
    using key by simp
  have "responses (rates_handler w (Some (JStr s))) = responses (on_response w s r)"
    by (rule responses_with_reply [OF valid k reply(1)])
  then show ?thesis
    using reply(2) by (simp add: on_response_def)
qed

text \<open>The example of the specification: the upstream returns HTTP 404.\<close>

theorem upstream_error_status_witness:
  "responses (rates_handler (world_with (Some (js ''k'')) (Resolves reply_404)) (Some (JStr (js ''XXX'')))) =
     [(404, error_body (JStr (js ''Failed to fetch exchange rates: Not Found'')))]"
proof -
  let ?w = "world_with (Some (js ''k'')) (Resolves reply_404)"
  have h: "length (js ''XXX'') = 3" "EXCHANGE_RATE_API_KEY ?w = Some (js ''k'')" "js ''k'' \<noteq> []"
    "upstream ?w (api_request (js ''XXX'')) = Resolves reply_404" "\<not> ok reply_404"
    by (simp_all add: world_with_def reply_404_def ok_def)
  have t: "text_result reply_404 = Inr (js ''no such code'')"
    and st: "status reply_404 = 404" "statusText reply_404 = js ''Not Found''"
    by (simp_all add: reply_404_def)
  show ?thesis
    using upstream_error_status [OF h] t st by simp
qed

text \<open>
  An HTTP 404 reply whose body cannot be read: the answer is HTTP 500 and its error does
  not hold the status text.
\<close>

theorem upstream_error_status_counterexample:
  "upstream (world_with (Some (js ''k'')) (Resolves broken_404)) (api_request (js ''XXX''))
     = Resolves broken_404 \<and>
   status broken_404 = 404 \<and> statusText broken_404 = js ''Not Found'' \<and> \<not> ok broken_404 \<and>
   responses (rates_handler (world_with (Some (js ''k'')) (Resolves broken_404)) (Some (JStr (js ''XXX'')))) =
     [(500, error_body (JStr (js ''Internal server error: Premature close'')))]"
proof -
  let ?w = "world_with (Some (js ''k'')) (Resolves broken_404)"
  have "responses (rates_handler ?w (Some (JStr (js ''XXX'')))) = responses (on_response ?w (js ''XXX'') broken_404)"
    by (rule responses_with_reply) (simp_all add: world_with_def)
  then show ?thesis
    by (simp add: on_response_def broken_404_def ok_def world_with_def)
qed

text \<open>
  C5. For every upstream HTTP 200 payload whose \<open>result\<close> field equals \<open>"error"\<close>, the
  handler answers HTTP 400 with \<open>{success: false, error: e}\<close>, where \<open>e\<close> is the payload's
  \<open>error-type\<close> when that is truthy and \<open>"Unknown API error"\<close> when it is absent or
  falsy.
\<close>

theorem upstream_rejected:
  assumes valid: "length s = 3"
    and key: "EXCHANGE_RATE_API_KEY w = Some k" "k \<noteq> []"
    and reply: "upstream w (api_request s) = Resolves r" "status r = 200"
      "json_result r = Inr data"
    and rejected: "get_prop data (js ''result'') = Some (JStr (js ''error''))"
  shows "(\<forall>v. get_prop data (js ''error-type'') = Some v \<and> truthy (Some v) \<longrightarrow>
            responses (rates_handler w (Some (JStr s))) = [(400, error_body v)]) \<and>
         (\<not> truthy (get_prop data (js ''error-type'')) \<longrightarrow>
            responses (rates_handler w (Some (JStr s))) =
              [(400, error_body (JStr (js ''Unknown API error'')))])"
proof -
  have k: "truthy (map_option JStr (EXCHANGE_RATE_API_KEY w))"
    using key by simp
  have "data \<noteq> JNull" using rejected by auto
  then have "on_response w s r = reshape w s data"
    using reply by (simp add: on_response_ok ok_200)
  then have "responses (rates_handler w (Some (JStr s))) = responses (reshape w s data)"
    using responses_with_reply [OF valid k reply(1)] by simp
  then show ?thesis
    using rejected by (cases "get_prop data (js ''error-type'')") (simp_all add: reshape_def)
qed

text \<open>
  The example of the specification: for \<open>{result: "error", "error-type": "unknown-code"}\<close>
  the error is exactly \<open>"unknown-code"\<close>.
\<close>

theorem upstream_rejected_witness:
  "responses (rates_handler (world_with (Some (js ''k'')) (Resolves (reply_200 unknown_code_payload)))
                (Some (JStr (js ''XXX'')))) =
     [(400, error_body (JStr (js ''unknown-code'')))]"
proof -
  let ?w = "world_with (Some (js ''k'')) (Resolves (reply_200 unknown_code_payload))"
  have h: "length (js ''XXX'') = 3" "EXCHANGE_RATE_API_KEY ?w = Some (js ''k'')" "js ''k'' \<noteq> []"
    "upstream ?w (api_request (js ''XXX'')) = Resolves (reply_200 unknown_code_payload)"
    "status (reply_200 unknown_code_payload) = 200"
    "json_result (reply_200 unknown_code_payload) = Inr unknown_code_payload"
    "get_prop unknown_code_payload (js ''result'') = Some (JStr (js ''error''))"
    by (simp_all add: world_with_def reply_200_def unknown_code_payload_def)
  have v: "get_prop unknown_code_payload (js ''error-type'') = Some (JStr (js ''unknown-code'')) \<and>
           truthy (Some (JStr (js ''unknown-code'')))"
    by (simp add: unknown_code_payload_def)
  show ?thesis
    using upstream_rejected [OF h] v by blast
qed

text \<open>
  C6 (as amended). For every upstream HTTP 200 payload that is not \<open>null\<close>, whose \<open>result\<close>
  is not \<open>"error"\<close> and whose \<open>rates\<close> field is absent or falsy, the handler answers HTTP
  500 with \<open>{success: false, error: "Invalid response from exchange rate API"}\<close>. The
  claim as written covers every payload without a rates mapping; the test for
  \<open>result\<close> comes first, so a payload that reports an error is answered with HTTP 400.
\<close>

theorem missing_rates:
  assumes valid: "length s = 3"
    and key: "EXCHANGE_RATE_API_KEY w = Some k" "k \<noteq> []"
    and reply: "upstream w (api_request s) = Resolves r" "status r = 200"
      "json_result r = Inr data"
    and not_null: "data \<noteq> JNull"
    and not_rejected: "get_prop data (js ''result'') \<noteq> Some (JStr (js ''error''))"
    and no_rates: "\<not> truthy (get_prop data (js ''rates''))"
  shows "responses (rates_handler w (Some (JStr s))) =
           [(500, error_body (JStr (js ''Invalid response from exchange rate API'')))]"
proof -
  have k: "truthy (map_option JStr (EXCHANGE_RATE_API_KEY w))"
    using key by simp
  have "on_response w s r = reshape w s data"
    using reply not_null by (simp add: on_response_ok ok_200)
  then have "responses (rates_handler w (Some (JStr s))) = responses (reshape w s data)"
    using responses_with_reply [OF valid k reply(1)] by simp
  then show ?thesis
    using not_rejected no_rates
    by (cases "get_prop data (js ''rates'')") (simp_all add: reshape_def rates_not_found_def)
qed

text \<open>The example of the specification: a body without a \<open>rates\<close> field.\<close>

theorem missing_rates_witness:
  "responses (rates_handler (world_with (Some (js ''k'')) (Resolves (reply_200 no_rates_payload)))
                (Some (JStr (js ''USD'')))) =
     [(500, error_body (JStr (js ''Invalid response from exchange rate API'')))]"
proof -
  let ?w = "world_with (Some (js ''k'')) (Resolves (reply_200 no_rates_payload))"
  have h: "length (js ''USD'') = 3" "EXCHANGE_RATE_API_KEY ?w = Some (js ''k'')" "js ''k'' \<noteq> []"
    "upstream ?w (api_request (js ''USD'')) = Resolves (reply_200 no_rates_payload)"
    "status (reply_200 no_rates_payload) = 200"
    "json_result (reply_200 no_rates_payload) = Inr no_rates_payload"
    "no_rates_payload \<noteq> JNull"
    "get_prop no_rates_payload (js ''result'') \<noteq> Some (JStr (js ''error''))"
    "\<not> truthy (get_prop no_rates_payload (js ''rates''))"
    by (simp_all add: world_with_def reply_200_def no_rates_payload_def)
  show ?thesis
    by (rule missing_rates [OF h])
qed

text \<open>
  The payload \<open>{result: "error", "error-type": "unknown-code"}\<close> has no rates mapping and
  is answered with HTTP 400.
\<close>

theorem missing_rates_counterexample:
  "upstream (world_with (Some (js ''k'')) (Resolves (reply_200 unknown_code_payload))) (api_request (js ''USD''))
     = Resolves (reply_200 unknown_code_payload) \<and>
   status (reply_200 unknown_code_payload) = 200 \<and>
   json_result (reply_200 unknown_code_payload) = Inr unknown_code_payload \<and>
   get_prop unknown_code_payload (js ''rates'') = None \<and>
   responses (rates_handler (world_with (Some (js ''k'')) (Resolves (reply_200 unknown_code_payload)))
                (Some (JStr (js ''USD'')))) =
     [(400, error_body (JStr (js ''unknown-code'')))]"
proof -
  let ?w = "world_with (Some (js ''k'')) (Resolves (reply_200 unknown_code_payload))"
  have "responses (rates_handler ?w (Some (JStr (js ''USD'')))) =
          responses (on_response ?w (js ''USD'') (reply_200 unknown_code_payload))"
    by (rule responses_with_reply) (simp_all add: world_with_def)
  also have "\<dots> = responses (reshape ?w (js ''USD'') unknown_code_payload)"
    by (simp add: on_response_def reply_200_def ok_def unknown_code_payload_def)
  finally show ?thesis
    by (simp add: reshape_def unknown_code_payload_def world_with_def reply_200_def)
qed

subsection \<open>The health route\<close>

text \<open>
  C7. The health route answers HTTP 200 with \<open>{success: true, message, timestamp}\<close> in
  every world, whatever the configuration and whatever the upstream would do, and it makes
  no upstream call.
\<close>

theorem health_unconditional:
  "app w ToHealth =
     [Send 200 (JObj [(js ''success'', JBool True),
                      (js ''message'', JStr (js ''Currency converter API is running'')),
                      (js ''timestamp'', JStr (now_iso w))])] \<and>
   fetches (app w ToHealth) = []"
  by (simp add: health_handler_def)

text \<open>A world without the key whose upstream refuses every connection.\<close>

theorem health_unconditional_witness:
  "app (world_with None (Rejects (JsError (js ''ECONNREFUSED'')))) ToHealth =
     [Send 200 (JObj [(js ''success'', JBool True),
                      (js ''message'', JStr (js ''Currency converter API is running'')),
                      (js ''timestamp'', JStr (js ''2024-01-15T12:00:00.000Z''))])] \<and>
   fetches (app (world_with None (Rejects (JsError (js ''ECONNREFUSED'')))) ToHealth) = []"
proof -
  have n: "now_iso (world_with None (Rejects (JsError (js ''ECONNREFUSED'')))) = js ''2024-01-15T12:00:00.000Z''"
    by (simp add: world_with_def)
  show ?thesis
    using health_unconditional [of "world_with None (Rejects (JsError (js ''ECONNREFUSED'')))"] n
    by simp
qed

subsection \<open>The shape of failures\<close>

lemma error_body_inject [simp]: "error_body a = error_body b \<longleftrightarrow> a = b"
  by (simp add: error_body_def)

lemma error_body_string [simp]: "\<exists>m. JStr x = JStr m"
  by blast

lemma reshape_shape:
  "\<exists>st b. responses (reshape w s d) = [(st, b)] \<and>
     ((st = 200 \<and> get_prop b (js ''success'') = Some (JBool True)) \<or>
      (\<exists>m. b = error_body (JStr m)) \<or>
      (st = 400 \<and> get_prop d (js ''result'') = Some (JStr (js ''error'')) \<and>
       (\<exists>v. get_prop d (js ''error-type'') = Some v \<and> b = error_body v)))"
proof (cases "get_prop d (js ''result'') = Some (JStr (js ''error''))")
  case True
  then show ?thesis
    by (cases "get_prop d (js ''error-type'')") (simp_all add: reshape_def)
next
  case False
  then show ?thesis
    by (cases "get_prop d (js ''rates'')") (simp_all add: reshape_def rates_not_found_def)
qed

lemma on_response_shape:
  "\<exists>st b. responses (on_response w s r) = [(st, b)] \<and>
     ((st = 200 \<and> get_prop b (js ''success'') = Some (JBool True)) \<or>
      (\<exists>m. b = error_body (JStr m)) \<or>
      (st = 400 \<and>
       (\<exists>d v. json_result r = Inr d \<and> get_prop d (js ''result'') = Some (JStr (js ''error'')) \<and>
          get_prop d (js ''error-type'') = Some v \<and> b = error_body v)))"
proof (cases "ok r")
  case False
  then show ?thesis
    by (cases "text_result r") (simp_all add: on_response_def)
next
  case True
  show ?thesis
  proof (cases "json_result r")
    case (Inl e)
    with True show ?thesis by (simp add: on_response_def)
  next
    case (Inr d)
    show ?thesis
    proof (cases "d = JNull")
      case True
      with \<open>ok r\<close> Inr show ?thesis by (simp add: on_response_def)
    next
      case False
      with \<open>ok r\<close> Inr have "on_response w s r = reshape w s d"
        by (simp add: on_response_ok)
      with reshape_shape [of w s d] Inr show ?thesis by auto
    qed
  qed
qed

lemma rates_shape:
  "\<exists>st b. responses (rates_handler w bc) = [(st, b)] \<and>
     ((st = 200 \<and> get_prop b (js ''success'') = Some (JBool True)) \<or>
      (\<exists>m. b = error_body (JStr m)) \<or>
      (st = 400 \<and>
       (\<exists>r d v. upstream w (api_request (str_of bc)) = Resolves r \<and> json_result r = Inr d \<and>
          get_prop d (js ''result'') = Some (JStr (js ''error'')) \<and>
          get_prop d (js ''error-type'') = Some v \<and> b = error_body v)))"
proof (cases "invalid_base bc")
  case True
  then show ?thesis by (simp add: rates_handler_def)
next
  case valid: False
  show ?thesis
  proof (cases "truthy (map_option JStr (EXCHANGE_RATE_API_KEY w))")
    case False
    with valid show ?thesis by (simp add: rates_handler_def after_validation_def)
  next
    case True
    show ?thesis
    proof (cases "upstream w (api_request (str_of bc))")
      case (Rejects e)
      with valid True show ?thesis by (simp add: rates_handler_def after_validation_def)
    next
      case (Resolves r)
      with valid True have
        "responses (rates_handler w bc) = responses (on_response w (str_of bc) r)"
        by (simp add: rates_handler_def after_validation_def)
      with on_response_shape [of w "str_of bc" r] Resolves show ?thesis by auto
    qed
  qed
qed

lemma responses_rejects:
  assumes "length s = 3" "truthy (map_option JStr (EXCHANGE_RATE_API_KEY w))"
    and "upstream w (api_request s) = Rejects e"
  shows "responses (rates_handler w (Some (JStr s))) =
           [(500, error_body (JStr (js ''Internal server error: '' @ message e)))]"
  using assms by (simp add: rates_handler_valid after_validation_key)

text \<open>
  C8 (as amended). Every request that reaches the application's handlers is answered
  exactly once, and every answer that is not the successful \<open>{success: true, ..}\<close> with
  HTTP 200 has the body \<open>{success: false, error: e}\<close>. The error \<open>e\<close> is a string, except
  that an upstream payload with \<open>result\<close> \<open>"error"\<close> has its truthy \<open>error-type\<close> passed on as
  it is, string or not. An error thrown inside the rates handler (the upstream call
  rejects, the body of a non-success reply cannot be read, the body of a success reply is
  not JSON, or it is \<open>null\<close>) is answered with HTTP 500 and
  \<open>"Internal server error: " + message\<close>. A request that matches no route is answered
  with HTTP 404 and \<open>{success: false, error: "Endpoint not found"}\<close>. An error handed on
  by an earlier layer is answered by the global error handler with HTTP 500 and the
  error \<open>"Internal server error"\<close>, without a message.
\<close>

theorem errors_uniform:
  "(\<exists>st b. responses (app w rq) = [(st, b)] \<and>
      ((st = 200 \<and> get_prop b (js ''success'') = Some (JBool True)) \<or>
       (\<exists>m. b = error_body (JStr m)) \<or>
       (st = 400 \<and>
        (\<exists>bc r d v. rq = ToRates bc \<and> upstream w (api_request (str_of bc)) = Resolves r \<and>
           json_result r = Inr d \<and> get_prop d (js ''result'') = Some (JStr (js ''error'')) \<and>
           get_prop d (js ''error-type'') = Some v \<and> b = error_body v)))) \<and>
   (length s = 3 \<and> truthy (map_option JStr (EXCHANGE_RATE_API_KEY w)) \<longrightarrow>
      (upstream w (api_request s) = Rejects e \<or>
       (\<exists>r. upstream w (api_request s) = Resolves r \<and>
          (if ok r then json_result r = Inl e \<or> (json_result r = Inr JNull \<and> e = null_read_error w)
           else text_result r = Inl e)) \<longrightarrow>
       responses (app w (ToRates (Some (JStr s)))) =
         [(500, error_body (JStr (js ''Internal server error: '' @ message e)))])) \<and>
   app w Unmatched = [Send 404 (error_body (JStr (js ''Endpoint not found'')))] \<and>
   responses (app w (Errored err)) = [(500, error_body (JStr (js ''Internal server error'')))]"
proof (intro conjI impI)
  show "\<exists>st b. responses (app w rq) = [(st, b)] \<and>
      ((st = 200 \<and> get_prop b (js ''success'') = Some (JBool True)) \<or>
       (\<exists>m. b = error_body (JStr m)) \<or>
       (st = 400 \<and>
        (\<exists>bc r d v. rq = ToRates bc \<and> upstream w (api_request (str_of bc)) = Resolves r \<and>
           json_result r = Inr d \<and> get_prop d (js ''result'') = Some (JStr (js ''error'')) \<and>
           get_prop d (js ''error-type'') = Some v \<and> b = error_body v)))"
  proof (cases rq)
    case (ToRates bc)
    with rates_shape [of w bc] show ?thesis by auto
  next
    case ToHealth
    then show ?thesis by (simp add: health_handler_def)
  next
    case Unmatched
    then show ?thesis by (simp add: not_found_handler_def)
  next
    case (Errored x)
    then show ?thesis by (simp add: error_handler_def)
  qed
next
  assume h: "length s = 3 \<and> truthy (map_option JStr (EXCHANGE_RATE_API_KEY w))"
  assume thrown: "upstream w (api_request s) = Rejects e \<or>
       (\<exists>r. upstream w (api_request s) = Resolves r \<and>
          (if ok r then json_result r = Inl e \<or> (json_result r = Inr JNull \<and> e = null_read_error w)
           else text_result r = Inl e))"
  then show "responses (app w (ToRates (Some (JStr s)))) =
         [(500, error_body (JStr (js ''Internal server error: '' @ message e)))]"
  proof
    assume "upstream w (api_request s) = Rejects e"
    with h show ?thesis by (simp add: responses_rejects)
  next
    assume "\<exists>r. upstream w (api_request s) = Resolves r \<and>
          (if ok r then json_result r = Inl e \<or> (json_result r = Inr JNull \<and> e = null_read_error w)
           else text_result r = Inl e)"
    then obtain r where r: "upstream w (api_request s) = Resolves r"
      and c: "if ok r then json_result r = Inl e \<or> (json_result r = Inr JNull \<and> e = null_read_error w)
           else text_result r = Inl e"
      by blast
    from h r have "responses (rates_handler w (Some (JStr s))) = responses (on_response w s r)"
      by (simp add: responses_with_reply)
    moreover from c have "responses (on_response w s r) =
         [(500, error_body (JStr (js ''Internal server error: '' @ message e)))]"
      by (auto simp: on_response_def split: if_splits)
    ultimately show ?thesis by simp
  qed
next
  show "app w Unmatched = [Send 404 (error_body (JStr (js ''Endpoint not found'')))]"
    by (simp add: not_found_handler_def)
  show "responses (app w (Errored err)) = [(500, error_body (JStr (js ''Internal server error'')))]"
    by (simp add: error_handler_def)
qed

text \<open>A timed-out upstream call, and a request for an unknown route.\<close>

theorem errors_uniform_witness:
  "responses (app (world_with (Some (js ''k'')) (Rejects (JsError (js ''ETIMEDOUT''))))
                (ToRates (Some (JStr (js ''USD''))))) =
     [(500, error_body (JStr (js ''Internal server error: ETIMEDOUT'')))] \<and>
   app (world_with (Some (js ''k'')) (Rejects (JsError (js ''ETIMEDOUT'')))) Unmatched =
     [Send 404 (error_body (JStr (js ''Endpoint not found'')))]"
proof -
  let ?w = "world_with (Some (js ''k'')) (Rejects (JsError (js ''ETIMEDOUT'')))"
  note t = errors_uniform [of ?w Unmatched "js ''USD''" "JsError (js ''ETIMEDOUT'')" "JsError (js ''x'')"]
  have h: "length (js ''USD'') = 3 \<and> truthy (map_option JStr (EXCHANGE_RATE_API_KEY ?w))"
    by (simp add: world_with_def)
  have u: "upstream ?w (api_request (js ''USD'')) = Rejects (JsError (js ''ETIMEDOUT''))"
    by (simp add: world_with_def)
  from t h u have "responses (app ?w (ToRates (Some (JStr (js ''USD''))))) =
     [(500, error_body (JStr (js ''Internal server error: '' @ message (JsError (js ''ETIMEDOUT'')))))]"
    by blast
  moreover from t have "app ?w Unmatched = [Send 404 (error_body (JStr (js ''Endpoint not found'')))]"
    by blast
  ultimately show ?thesis by simp
qed

text \<open>
  The payload \<open>{result: "error", "error-type": 42}\<close> is answered with an error that is the
  number 42, and an error that reaches the global error handler is answered without its
  message.
\<close>

theorem errors_uniform_counterexample:
  "responses (app (world_with (Some (js ''k'')) (Resolves (reply_200 numeric_error_payload)))
                (ToRates (Some (JStr (js ''USD''))))) =
     [(400, JObj [(js ''success'', JBool False), (js ''error'', JNum 0x4045000000000000)])] \<and>
   responses (app (world_with (Some (js ''k'')) (Resolves (reply_200 numeric_error_payload)))
                (Errored (JsError (js ''Unexpected token'')))) =
     [(500, JObj [(js ''success'', JBool False), (js ''error'', JStr (js ''Internal server error''))])]"
proof -
  let ?w = "world_with (Some (js ''k'')) (Resolves (reply_200 numeric_error_payload))"
  have "responses (rates_handler ?w (Some (JStr (js ''USD'')))) =
          responses (on_response ?w (js ''USD'') (reply_200 numeric_error_payload))"
    by (rule responses_with_reply) (simp_all add: world_with_def)
  also have "\<dots> = responses (reshape ?w (js ''USD'') numeric_error_payload)"
    by (simp add: on_response_def reply_200_def ok_def numeric_error_payload_def)
  also have "\<dots> = [(400, JObj [(js ''success'', JBool False), (js ''error'', JNum 0x4045000000000000)])]"
    by (simp add: reshape_def numeric_error_payload_def error_body_def double_truthy_def)
  finally show ?thesis
    by (simp add: error_handler_def error_body_def)
qed

subsection \<open>One upstream call, no state\<close>

lemma length_responses_reshape: "length (responses (reshape w s d)) = 1"
  by (simp add: reshape_def rates_not_found_def split: option.splits)

lemma length_responses_on_response: "length (responses (on_response w s r)) = 1"
  by (simp add: on_response_def length_responses_reshape split: sum.splits json.splits)

lemma length_responses_after_validation: "length (responses (after_validation w s)) = 1"
  by (simp add: after_validation_def length_responses_on_response split: fetch_outcome.splits)

lemma length_responses_rates: "length (responses (rates_handler w bc)) = 1"
  by (simp add: rates_handler_def length_responses_after_validation)

lemma fetches_after_validation:
  "fetches (after_validation w s) =
     (if truthy (map_option JStr (EXCHANGE_RATE_API_KEY w)) then [api_request s] else [])"
  by (simp add: after_validation_def split: fetch_outcome.splits)

lemma fetches_rates:
  "fetches (rates_handler w bc) =
     (if \<not> invalid_base bc \<and> truthy (map_option JStr (EXCHANGE_RATE_API_KEY w))
      then [api_request (str_of bc)] else [])"
  by (simp add: rates_handler_def fetches_after_validation)

lemma serve_append: "serve w (rqs @ rqs') = serve w rqs @ serve w rqs'"
  by (induction rqs) simp_all

text \<open>
  C9. A rates request makes at most one upstream call, a GET for the requested code, and
  sends exactly one response; with a valid code and a key it makes exactly one call
  whatever the upstream does, so no failure is retried. The effects of a request served
  after any sequence of requests are the effects of that request alone: no state is
  kept between requests.
\<close>

theorem single_upstream_call:
  "length (fetches (rates_handler w bc)) \<le> 1 \<and>
   (\<forall>q \<in> set (fetches (rates_handler w bc)).
      q = api_request (str_of bc) \<and> http_method q = js ''GET'') \<and>
   length (responses (rates_handler w bc)) = 1 \<and>
   (length s = 3 \<and> truthy (map_option JStr (EXCHANGE_RATE_API_KEY w)) \<longrightarrow>
      fetches (rates_handler w (Some (JStr s))) = [api_request s]) \<and>
   serve w (rqs @ [rq]) = serve w rqs @ app w rq"
proof (intro conjI)
  show "length (fetches (rates_handler w bc)) \<le> 1"
    by (simp add: fetches_rates)
  show "\<forall>q \<in> set (fetches (rates_handler w bc)).
      q = api_request (str_of bc) \<and> http_method q = js ''GET''"
    by (simp add: fetches_rates api_request_def)
  show "length (responses (rates_handler w bc)) = 1"
    by (rule length_responses_rates)
  show "length s = 3 \<and> truthy (map_option JStr (EXCHANGE_RATE_API_KEY w)) \<longrightarrow>
      fetches (rates_handler w (Some (JStr s))) = [api_request s]"
    by (simp add: fetches_rates invalid_base_iff)
  show "serve w (rqs @ [rq]) = serve w rqs @ app w rq"
    by (simp add: serve_append)
qed

text \<open>An upstream call that times out is made once and answered once.\<close>

theorem single_upstream_call_witness:
  "fetches (rates_handler (world_with (Some (js ''k'')) (Rejects (JsError (js ''ETIMEDOUT''))))
      (Some (JStr (js ''USD'')))) = [api_request (js ''USD'')] \<and>
   http_method (api_request (js ''USD'')) = js ''GET'' \<and>
   length (responses (rates_handler (world_with (Some (js ''k'')) (Rejects (JsError (js ''ETIMEDOUT''))))
      (Some (JStr (js ''USD''))))) = 1"
proof -
  let ?w = "world_with (Some (js ''k'')) (Rejects (JsError (js ''ETIMEDOUT'')))"
  note t = single_upstream_call [of ?w "Some (JStr (js ''USD''))" "js ''USD''" "[]" ToHealth]
  have h: "length (js ''USD'') = 3 \<and> truthy (map_option JStr (EXCHANGE_RATE_API_KEY ?w))"
    by (simp add: world_with_def)
  from t h have f: "fetches (rates_handler ?w (Some (JStr (js ''USD'')))) = [api_request (js ''USD'')]"
    by blast
  from t have "\<forall>q \<in> set (fetches (rates_handler ?w (Some (JStr (js ''USD''))))).
      q = api_request (str_of (Some (JStr (js ''USD'')))) \<and> http_method q = js ''GET''"
    by blast
  with f have g: "http_method (api_request (js ''USD'')) = js ''GET''" by simp
  from t have "length (responses (rates_handler ?w (Some (JStr (js ''USD''))))) = 1" by blast
  with f g show ?thesis by blast
qed

subsection \<open>Determinism and the value of the key\<close>

lemma reshape_clock_fetch_free:
  "map (apsnd without_date) (responses (reshape (w\<lparr>now_iso := t\<rparr>) s d)) =
   map (apsnd without_date) (responses (reshape w s d))"
  by (simp add: reshape_def rates_not_found_def error_body_def split: option.splits)

lemma on_response_clock:
  "map (apsnd without_date) (responses (on_response (w\<lparr>now_iso := t\<rparr>) s r)) =
   map (apsnd without_date) (responses (on_response w s r))"
  by (simp add: on_response_def reshape_clock_fetch_free split: sum.splits json.splits)

lemma rates_clock:
  "map (apsnd without_date) (responses (rates_handler (w\<lparr>now_iso := t\<rparr>) bc)) =
   map (apsnd without_date) (responses (rates_handler w bc))"
  by (simp add: rates_handler_def after_validation_def on_response_clock
      split: fetch_outcome.splits)

lemma reshape_date_fixed:
  assumes "(st, b) \<in> set (responses (reshape w s d))"
    and "get_prop b (js ''date'') \<noteq> Some (JStr (now_iso w))"
  shows "reshape (w\<lparr>now_iso := t\<rparr>) s d = reshape w s d"
proof (cases "get_prop d (js ''time_last_update_utc'')")
  case None
  with assms show ?thesis
    by (auto simp: reshape_def rates_not_found_def split: if_splits option.splits)
next
  case (Some lu)
  with assms show ?thesis
    by (auto simp: reshape_def rates_not_found_def split: if_splits option.splits)
qed

lemma on_response_date_fixed:
  assumes "(st, b) \<in> set (responses (on_response w s r))"
    and "get_prop b (js ''date'') \<noteq> Some (JStr (now_iso w))"
  shows "on_response (w\<lparr>now_iso := t\<rparr>) s r = on_response w s r"
  using assms
  by (auto simp: on_response_def dest: reshape_date_fixed split: if_splits sum.splits json.splits)

lemma rates_date_fixed:
  assumes "(st, b) \<in> set (responses (rates_handler w bc))"
    and "get_prop b (js ''date'') \<noteq> Some (JStr (now_iso w))"
  shows "rates_handler (w\<lparr>now_iso := t\<rparr>) bc = rates_handler w bc"
  using assms
  by (auto simp: rates_handler_def after_validation_def dest: on_response_date_fixed
      split: if_splits fetch_outcome.splits)

lemma reshape_key: "reshape (w\<lparr>EXCHANGE_RATE_API_KEY := k\<rparr>) s d = reshape w s d"
  by (simp add: reshape_def split: option.splits)

lemma on_response_key: "on_response (w\<lparr>EXCHANGE_RATE_API_KEY := k\<rparr>) s r = on_response w s r"
  by (simp add: on_response_def reshape_key split: sum.splits json.splits)

lemma after_validation_key_value:
  assumes "ka \<noteq> []" and "kb \<noteq> []"
  shows "after_validation (w\<lparr>EXCHANGE_RATE_API_KEY := Some ka\<rparr>) s =
         after_validation (w\<lparr>EXCHANGE_RATE_API_KEY := Some kb\<rparr>) s"
  using assms by (simp add: after_validation_def on_response_key split: fetch_outcome.splits)

text \<open>
  C10. Two rates requests for the same code against the same upstream and configuration,
  made at different times, make the same upstream call and send responses that are equal
  once the \<open>date\<close> field is taken out; when the \<open>date\<close> sent is not the current time the
  whole run is the same. Two non-empty keys give the same run: only the presence of the
  key matters. The upstream request is built from the code alone: its URL is the
  reference endpoint followed by the code and its only header is \<open>Accept\<close>.
\<close>

theorem rates_deterministic:
  "fetches (rates_handler (w\<lparr>now_iso := t\<rparr>) bc) = fetches (rates_handler w bc) \<and>
   map (apsnd without_date) (responses (rates_handler (w\<lparr>now_iso := t\<rparr>) bc)) =
     map (apsnd without_date) (responses (rates_handler w bc)) \<and>
   (\<forall>st b. (st, b) \<in> set (responses (rates_handler w bc)) \<and>
        get_prop b (js ''date'') \<noteq> Some (JStr (now_iso w)) \<longrightarrow>
      rates_handler (w\<lparr>now_iso := t\<rparr>) bc = rates_handler w bc) \<and>
   (ka \<noteq> [] \<and> kb \<noteq> [] \<longrightarrow>
      rates_handler (w\<lparr>EXCHANGE_RATE_API_KEY := Some ka\<rparr>) bc =
      rates_handler (w\<lparr>EXCHANGE_RATE_API_KEY := Some kb\<rparr>) bc) \<and>
   (\<forall>q \<in> set (fetches (rates_handler w bc)).
      url q = js ''https://open.er-api.com/v6/latest/'' @ str_of bc \<and>
      headers q = [(js ''Accept'', js ''application/json'')])"
proof (intro conjI)
  show "fetches (rates_handler (w\<lparr>now_iso := t\<rparr>) bc) = fetches (rates_handler w bc)"
    by (simp add: fetches_rates)
  show "map (apsnd without_date) (responses (rates_handler (w\<lparr>now_iso := t\<rparr>) bc)) =
     map (apsnd without_date) (responses (rates_handler w bc))"
    by (rule rates_clock)
  show "\<forall>st b. (st, b) \<in> set (responses (rates_handler w bc)) \<and>
        get_prop b (js ''date'') \<noteq> Some (JStr (now_iso w)) \<longrightarrow>
      rates_handler (w\<lparr>now_iso := t\<rparr>) bc = rates_handler w bc"
    using rates_date_fixed by blast
  show "ka \<noteq> [] \<and> kb \<noteq> [] \<longrightarrow>
      rates_handler (w\<lparr>EXCHANGE_RATE_API_KEY := Some ka\<rparr>) bc =
      rates_handler (w\<lparr>EXCHANGE_RATE_API_KEY := Some kb\<rparr>) bc"
    by (simp add: rates_handler_def after_validation_key_value)
  show "\<forall>q \<in> set (fetches (rates_handler w bc)).
      url q = js ''https://open.er-api.com/v6/latest/'' @ str_of bc \<and>
      headers q = [(js ''Accept'', js ''application/json'')]"
    by (simp add: fetches_rates api_request_def)
qed

text \<open>The USD example under two keys and at two times.\<close>

theorem rates_deterministic_witness:
  "rates_handler
     (world_with (Some (js ''k'')) (Resolves (reply_200 usd_payload))
        \<lparr>EXCHANGE_RATE_API_KEY := Some (js ''first'')\<rparr>) (Some (JStr (js ''USD''))) =
   rates_handler
     (world_with (Some (js ''k'')) (Resolves (reply_200 usd_payload))
        \<lparr>EXCHANGE_RATE_API_KEY := Some (js ''second'')\<rparr>) (Some (JStr (js ''USD''))) \<and>
   map (apsnd without_date)
     (responses (rates_handler
        (world_with (Some (js ''k'')) (Resolves (reply_200 usd_payload))
           \<lparr>now_iso := js ''2030-01-01T00:00:00.000Z''\<rparr>) (Some (JStr (js ''USD''))))) =
   map (apsnd without_date)
     (responses (rates_handler
        (world_with (Some (js ''k'')) (Resolves (reply_200 usd_payload))) (Some (JStr (js ''USD'')))))"
proof -
  have h: "js ''first'' \<noteq> [] \<and> js ''second'' \<noteq> []" by simp
  show ?thesis
    using rates_deterministic
      [where w = "world_with (Some (js ''k'')) (Resolves (reply_200 usd_payload))"
         and t = "js ''2030-01-01T00:00:00.000Z''" and bc = "Some (JStr (js ''USD''))"
         and ka = "js ''first''" and kb = "js ''second''"] h
    by blast
qed

end
